theory Spec2Isabelle
  imports Main
begin

section \<open>Data model of the reservation API (resources/api/reservation.py)\<close>

text \<open>
  The reservation states. \<open>Reservation.STATE_CHOICES\<close> and the four state constants live in
  \<open>resources/models/reservation.py\<close>; the serializer's \<open>ChoiceField\<close> admits exactly these
  values, so a state is a value of a closed enumeration.
\<close>

datatype state = REQUESTED | CONFIRMED | DENIED | CANCELLED

text \<open>
  A stored user (\<open>users.models.User\<close>): its primary key, its uuid (as the 128-bit number
  \<open>uuid.UUID\<close> denotes) and the global staff flag.
\<close>

record user =
  user_pk :: nat
  uuid :: nat
  is_staff :: bool

text \<open>
  \<open>request.user\<close> is either Django's \<open>AnonymousUser\<close> or a stored user.
\<close>

datatype request_user = AnonymousUser | AuthUser user

fun is_authenticated :: "request_user \<Rightarrow> bool" where
  "is_authenticated AnonymousUser = False"
| "is_authenticated (AuthUser u) = True"

fun request_is_staff :: "request_user \<Rightarrow> bool" where
  "request_is_staff AnonymousUser = False"
| "request_is_staff (AuthUser u) = is_staff u"

text \<open>
  A resource, with the policy predicates the API calls on it. Their bodies are in
  \<open>resources/models/resource.py\<close>; here they are fields, so every result below holds for
  whatever they compute.
\<close>

record resource =
  resource_pk :: nat
  need_manual_confirmation :: bool
  can_make_reservations :: "request_user \<Rightarrow> bool"
  can_approve_reservations :: "request_user \<Rightarrow> bool"
  is_admin :: "request_user \<Rightarrow> bool"

text \<open>
  A stored reservation. \<open>begin\<close> and \<open>end\<close> are instants on the time line (integers);
  \<open>user\<close>, \<open>created_by\<close> and \<open>modified_by\<close> are nullable references; \<open>extra_fields\<close>
  holds the fields named by \<open>RESERVATION_EXTRA_FIELDS\<close>.
\<close>

record reservation =
  pk :: nat
  resource :: resource
  user :: "user option"
  begin_ts :: int
  end_ts :: int
  comments :: "string option"
  state :: state
  extra_fields :: "string \<rightharpoonup> string"
  created_by :: "user option"
  modified_by :: "user option"

text \<open>
  \<open>obj.user == request.user\<close>: Django compares model instances by primary key; \<open>None\<close>
  and \<open>AnonymousUser\<close> equal no stored user.
\<close>

fun user_eq :: "user option \<Rightarrow> request_user \<Rightarrow> bool" where
  "user_eq (Some u) (AuthUser v) = (user_pk u = user_pk v)"
| "user_eq _ _ = False"

datatype error =
  PermissionDenied
| ValidationError string
| ParseError string
| ValueError
| KeyError string
| BuilderError
| TypeError
| DoesNotExist
| MultipleObjectsReturned
| NotAuthenticated

section \<open>State validation\<close>

definition allowed_states :: "state list" where
  "allowed_states = [REQUESTED, CONFIRMED, DENIED]"

text \<open>
  \<open>ReservationSerializer.validate_state\<close>. The instance is \<open>None\<close> for a reservation that
  is being created.
\<close>

definition validate_state :: "reservation option \<Rightarrow> request_user \<Rightarrow> state \<Rightarrow> error + state" where
  "validate_state instance request_user v =
     (case instance of
        None \<Rightarrow> Inr v
      | Some inst \<Rightarrow>
          if state inst = v then Inr v
          else if can_approve_reservations (resource inst) request_user
                  \<and> state inst \<in> set allowed_states \<and> v \<in> set allowed_states
               then Inr v
          else Inl (ValidationError ''Illegal state change''))"

section \<open>Object-level permission\<close>

definition SAFE_METHODS :: "string list" where
  "SAFE_METHODS = [''GET'', ''HEAD'', ''OPTIONS'']"

text \<open>
  \<open>ReservationPermission.has_object_permission\<close>. The first argument stands for the method
  \<open>Reservation.need_manual_confirmation()\<close> of the model.
\<close>

definition has_object_permission ::
    "(reservation \<Rightarrow> bool) \<Rightarrow> string \<Rightarrow> request_user \<Rightarrow> reservation \<Rightarrow> bool" where
  "has_object_permission obj_need_manual_confirmation method request_user obj =
     (if method \<in> set SAFE_METHODS then True
      else
        let cannot_approve = \<not> can_approve_reservations (resource obj) request_user in
        if obj_need_manual_confirmation obj \<and> state obj = CONFIRMED \<and> cannot_approve then False
        else is_admin (resource obj) request_user \<or> user_eq (user obj) request_user)"

section \<open>Exchange item identifiers (respa_exchange/ews/objs.py)\<close>

text \<open>
  An XML element as lxml presents it: a tag in Clark notation, the attribute dictionary
  (an association list with distinct keys) and the child elements in document order.
\<close>

datatype element =
  Element (tag: string) (attrib: "(string \<times> string) list") (children: "element list")

definition qname :: "string \<Rightarrow> string \<Rightarrow> string" where
  "qname ns local = ''{'' @ ns @ ''}'' @ local"

text \<open>\<open>Element.iter()\<close>: the element itself, then its subtree, in document order.\<close>

fun iter :: "element \<Rightarrow> element list" where
  "iter (Element t a cs) = Element t a cs # concat (map iter cs)"

text \<open>\<open>Element.iterdescendants()\<close>: as \<open>iter\<close>, without the element itself.\<close>

definition iterdescendants :: "element \<Rightarrow> element list" where
  "iterdescendants e = concat (map iter (children e))"

text \<open>
  \<open>tree.find(".//t:ItemId", namespaces=NAMESPACES)\<close>: the path \<open>.//tag\<close> selects the
  descendants of the context node with that tag, and \<open>find\<close> returns the first of them in
  document order, or \<open>None\<close>.
\<close>

definition find_descendant :: "string \<Rightarrow> element \<Rightarrow> element option" where
  "find_descendant t e = List.find (\<lambda>x. tag x = t) (iterdescendants e)"

text \<open>
  \<open>NAMESPACES\<close> and the element maker \<open>T\<close> are declared in \<open>respa_exchange/ews/xml.py\<close>.
  The namespace that \<open>NAMESPACES\<close> gives the prefix \<open>t\<close> is the parameter \<open>ns\<close> below, and
  a call of \<open>T.ItemId\<close> with keyword arguments builds an element of that namespace with
  these attributes and no children.
\<close>

definition T_maker :: "string \<Rightarrow> string \<Rightarrow> (string \<times> string) list \<Rightarrow> element" where
  "T_maker ns local attrs = Element (qname ns local) attrs []"

record ItemID =
  item_id :: string
  change_key :: "string option"

text \<open>
  \<open>ItemID.to_xml\<close>. The builder accepts string attribute values only, so an item whose
  change key is \<open>None\<close> cannot be rendered.
\<close>

definition to_xml :: "string \<Rightarrow> ItemID \<Rightarrow> error + element" where
  "to_xml ns self =
     (case change_key self of
        None \<Rightarrow> Inl BuilderError
      | Some ck \<Rightarrow> Inr (T_maker ns ''ItemId'' [(''Id'', item_id self), (''ChangeKey'', ck)]))"

text \<open>\<open>ItemID.from_tree\<close>.\<close>

definition from_tree :: "string \<Rightarrow> element \<Rightarrow> error + ItemID" where
  "from_tree ns tree =
     (case find_descendant (qname ns ''ItemId'') tree of
        None \<Rightarrow> Inl ValueError
      | Some item \<Rightarrow>
          (case map_of (attrib item) ''Id'' of
             None \<Rightarrow> Inl (KeyError ''Id'')
           | Some i \<Rightarrow> Inr \<lparr>item_id = i, change_key = map_of (attrib item) ''ChangeKey''\<rparr>))"

section \<open>Querysets and the listing filters\<close>

text \<open>
  A queryset is the list of the rows it selects. The conditions the API builds with \<open>Q\<close>
  objects and keyword lookups: \<open>state__in\<close>, \<open>user\<close> (the owner's primary key),
  \<open>user__uuid\<close>, and the disjunction \<open>|\<close>. A row without an owner matches no
  condition on the owner.
\<close>

type_synonym queryset = "reservation list"

datatype q = Q_state_in "state list" | Q_user user | Q_user_uuid nat | Q_or q q

fun q_matches :: "q \<Rightarrow> reservation \<Rightarrow> bool" where
  "q_matches (Q_state_in ss) r = (state r \<in> set ss)"
| "q_matches (Q_user u) r = (case user r of None \<Rightarrow> False | Some v \<Rightarrow> user_pk v = user_pk u)"
| "q_matches (Q_user_uuid n) r = (case user r of None \<Rightarrow> False | Some v \<Rightarrow> uuid v = n)"
| "q_matches (Q_or a b) r = (q_matches a r \<or> q_matches b r)"

text \<open>\<open>queryset.filter(c)\<close> and \<open>queryset.exclude(c)\<close>.\<close>

definition filter_qs :: "q \<Rightarrow> queryset \<Rightarrow> queryset" where
  "filter_qs c queryset = filter (q_matches c) queryset"

definition exclude_qs :: "q \<Rightarrow> queryset \<Rightarrow> queryset" where
  "exclude_qs c queryset = filter (\<lambda>r. \<not> q_matches c r) queryset"

text \<open>
  \<open>ReservationViewSet.get_queryset\<close>; the first argument is \<open>super().get_queryset()\<close>,
  that is \<open>Reservation.objects.all()\<close>.
\<close>

definition get_queryset :: "queryset \<Rightarrow> request_user \<Rightarrow> queryset" where
  "get_queryset queryset request_user =
     (if request_is_staff request_user then queryset
      else
        let filters = Q_state_in [CONFIRMED, REQUESTED];
            filters = (case request_user of
                         AuthUser u \<Rightarrow> Q_or filters (Q_user u)
                       | AnonymousUser \<Rightarrow> filters)
        in filter_qs filters queryset)"

text \<open>
  \<open>str.lower()\<close> on the ASCII letters; the tokens compared with its result are ASCII.
\<close>

definition lower_char :: "char \<Rightarrow> char" where
  "lower_char c =
     (case map_of (zip ''ABCDEFGHIJKLMNOPQRSTUVWXYZ'' ''abcdefghijklmnopqrstuvwxyz'') c of
        None \<Rightarrow> c
      | Some d \<Rightarrow> d)"

definition lower :: "string \<Rightarrow> string" where
  "lower s = map lower_char s"

text \<open>
  \<open>UserFilterBackend.filter_queryset\<close>, in its two steps: the \<open>user\<close> parameter, then the
  \<open>is_own\<close> parameter. \<open>uuid_UUID\<close> stands for the constructor \<open>uuid.UUID\<close>, which raises
  ValueError (here \<open>None\<close>) on a malformed string; \<open>query_params.get\<close> is the map lookup.
\<close>

definition filter_by_user_param ::
    "(string \<Rightarrow> nat option) \<Rightarrow> (string \<rightharpoonup> string) \<Rightarrow> queryset \<Rightarrow> error + queryset" where
  "filter_by_user_param uuid_UUID query_params queryset =
     (case query_params ''user'' of
        None \<Rightarrow> Inr queryset
      | Some u \<Rightarrow>
          if u = [] then Inr queryset
          else (case uuid_UUID u of
                  None \<Rightarrow> Inl (ParseError ''Invalid value in filter user'')
                | Some user_uuid \<Rightarrow> Inr (filter_qs (Q_user_uuid user_uuid) queryset)))"

definition filter_queryset ::
    "(string \<Rightarrow> nat option) \<Rightarrow> (string \<rightharpoonup> string) \<Rightarrow> request_user \<Rightarrow> queryset
      \<Rightarrow> error + queryset" where
  "filter_queryset uuid_UUID query_params request_user queryset0 =
     (case filter_by_user_param uuid_UUID query_params queryset0 of
        Inl e \<Rightarrow> Inl e
      | Inr queryset \<Rightarrow>
          (case request_user of
             AnonymousUser \<Rightarrow> Inr queryset
           | AuthUser u \<Rightarrow>
               (case query_params ''is_own'' of
                  None \<Rightarrow> Inr queryset
                | Some tok \<Rightarrow>
                    let is_own = lower tok in
                    if is_own \<in> set [''true'', ''t'', ''yes'', ''y'', ''1'']
                      then Inr (filter_qs (Q_user u) queryset)
                    else if is_own \<in> set [''false'', ''f'', ''no'', ''n'', ''0'']
                      then Inr (exclude_qs (Q_user u) queryset)
                    else Inl (ParseError ''Invalid value in filter is_own''))))"

section \<open>Validation and persistence\<close>

text \<open>
  The validated data of the serializer: a dictionary whose keys \<open>resource\<close>, \<open>begin\<close> and
  \<open>end\<close> are always present, and whose keys \<open>user\<close>, \<open>comments\<close> and \<open>state\<close> may be
  absent (\<open>None\<close> here). A present \<open>comments\<close> may hold null.
\<close>

record data =
  d_resource :: resource
  d_begin :: int
  d_end :: int
  d_user :: "user option"
  d_comments :: "string option option"
  d_state :: "state option"
  d_extra_fields :: "string \<rightharpoonup> string"

text \<open>A value of the request body.\<close>

datatype json =
  JNull | JBool bool | JInt int | JStr string | JList "json list" | JDict "(string \<times> json) list"

text \<open>Python's truth value of it (\<open>if user_data:\<close>).\<close>

fun truthy :: "json \<Rightarrow> bool" where
  "truthy JNull = False"
| "truthy (JBool b) = b"
| "truthy (JInt i) = (i \<noteq> 0)"
| "truthy (JStr s) = (s \<noteq> [])"
| "truthy (JList xs) = (xs \<noteq> [])"
| "truthy (JDict kvs) = (kvs \<noteq> [])"

text \<open>
  What the serializer and the views take from their surroundings: the clock
  (\<open>timezone.now()\<close>); the module constant \<open>USER_ID_ATTRIBUTE\<close> (\<open>id\<close> or \<open>uuid\<close>); the
  serializer field of the user's id, which accepts a value of the request or not; the way
  a lookup on that attribute of the user model reads a value of the request, which is
  the number the value denotes or the error that the lookup raises for a value it cannot
  use; the table of users; and the checks of the models, whose bodies are in
  \<open>resources/models\<close>: each either raises (\<open>Some\<close> error) or returns.
\<close>

record env =
  now :: int
  USER_ID_ATTRIBUTE :: string
  id_field :: "json \<Rightarrow> bool"
  lookup_value :: "json \<Rightarrow> error + int"
  users :: "user list"
  validate_reservation_period ::
    "resource \<Rightarrow> reservation option \<Rightarrow> request_user \<Rightarrow> data \<Rightarrow> error option"
  validate_max_reservations_per_user :: "resource \<Rightarrow> request_user \<Rightarrow> error option"
  clean :: "data \<Rightarrow> reservation option \<Rightarrow> error option"

text \<open>
  \<open>ReservationSerializer.validate\<close>. The row lock taken by \<open>select_for_update\<close> changes
  nothing in a single request and is left out.
\<close>

definition validate :: "env \<Rightarrow> reservation option \<Rightarrow> request_user \<Rightarrow> data \<Rightarrow> error + data" where
  "validate e reservation request_user data0 =
     (let resource = d_resource data0 in
      if \<not> can_make_reservations resource request_user then Inl PermissionDenied
      else if d_end data0 < now e
        then Inl (ValidationError ''Cannot make a reservation in the past'')
      else
        (let data = (if \<not> is_admin resource request_user then data0\<lparr>d_user := None\<rparr> else data0) in
         (case validate_reservation_period e resource reservation request_user data of
            Some err \<Rightarrow> Inl err
          | None \<Rightarrow>
              (if d_comments data \<noteq> None \<and> \<not> is_admin resource request_user
                 then Inl (ValidationError ''Only allowed to be set by staff members'')
               else
                 (case (case reservation of
                          None \<Rightarrow> validate_max_reservations_per_user e resource request_user
                        | Some r \<Rightarrow> None) of
                    Some err \<Rightarrow> Inl err
                  | None \<Rightarrow>
                      (case clean e data reservation of
                         Some err \<Rightarrow> Inl err
                       | None \<Rightarrow> Inr data))))))"

text \<open>
  \<open>UserSerializer(data=user_data).is_valid(raise_exception=True)\<close>: the data must be a
  dictionary with an \<open>id\<close> that the id field accepts (the other two fields are read-only).
  \<open>Some\<close> error is the validation error raised; the validated data is not used.
\<close>

definition UserSerializer_is_valid :: "env \<Rightarrow> json \<Rightarrow> error option" where
  "UserSerializer_is_valid e user_data =
     (case user_data of
        JDict kvs \<Rightarrow>
          (case map_of kvs ''id'' of
             None \<Rightarrow> Some (ValidationError ''id: This field is required.'')
           | Some v \<Rightarrow>
               (if id_field e v then None else Some (ValidationError ''id: invalid value'')))
      | _ \<Rightarrow> Some (ValidationError ''Invalid data. Expected a dictionary''))"

text \<open>The subscript \<open>user_data['id']\<close>.\<close>

definition getitem :: "json \<Rightarrow> string \<Rightarrow> error + json" where
  "getitem j k =
     (case j of
        JDict kvs \<Rightarrow> (case map_of kvs k of None \<Rightarrow> Inl (KeyError k) | Some v \<Rightarrow> Inr v)
      | _ \<Rightarrow> Inl TypeError)"

text \<open>
  \<open>User.objects.get\<close> on the attribute that \<open>USER_ID_ATTRIBUTE\<close> names, with the raw value
  \<open>user_data['id']\<close> of the request: the lookup raises what it raises for a value it cannot
  use, \<open>DoesNotExist\<close> when no user has the value, and \<open>MultipleObjectsReturned\<close> when
  several have it.
\<close>

definition User_objects_get :: "env \<Rightarrow> json \<Rightarrow> error + user" where
  "User_objects_get e user_data =
     (case getitem user_data ''id'' of
        Inl err \<Rightarrow> Inl err
      | Inr raw \<Rightarrow>
          (case lookup_value e raw of
             Inl err \<Rightarrow> Inl err
           | Inr i \<Rightarrow>
               (case filter (\<lambda>u. (if USER_ID_ATTRIBUTE e = ''uuid''
                                  then int (uuid u) else int (user_pk u)) = i) (users e) of
                  [] \<Rightarrow> Inl DoesNotExist
                | [u] \<Rightarrow> Inr u
                | _ \<Rightarrow> Inl MultipleObjectsReturned)))"

text \<open>
  \<open>ReservationSerializer.to_internal_value\<close>. \<open>user_data\<close> is \<open>data.pop('user', None)\<close>
  (\<open>JNull\<close> when the key is absent), and the last argument is the outcome of
  \<open>super().to_internal_value(data)\<close> on the remaining entries, which has no \<open>user\<close>. Of the
  errors of the lookup only \<open>DoesNotExist\<close> is caught and turned into a validation error;
  any other leaves the method as it is.
\<close>

definition to_internal_value :: "env \<Rightarrow> json \<Rightarrow> error + data \<Rightarrow> error + data" where
  "to_internal_value e user_data super_to_internal_value =
     (case super_to_internal_value of
        Inl err \<Rightarrow> Inl err
      | Inr d \<Rightarrow>
          let deserialized_data = d\<lparr>d_user := None\<rparr> in
          if truthy user_data then
            (case UserSerializer_is_valid e user_data of
               Some err \<Rightarrow> Inl err
             | None \<Rightarrow>
                 (case User_objects_get e user_data of
                    Inr u \<Rightarrow> Inr (deserialized_data\<lparr>d_user := Some u\<rparr>)
                  | Inl err \<Rightarrow>
                      if err = DoesNotExist
                      then Inl (ValidationError ''user: Invalid pk - object does not exist.'')
                      else Inl err))
          else Inr deserialized_data)"

text \<open>The calls that notify the owner, by the primary key of the reservation.\<close>

datatype call =
  send_created_by_admin_mail nat
| send_updated_by_admin_mail_if_changed nat
| send_deleted_by_admin_mail nat

text \<open>The table of reservations: the stored rows. A new row gets an unused primary key.\<close>

definition next_pk :: "reservation list \<Rightarrow> nat" where
  "next_pk db = Suc (fold max (map pk db) 0)"


text \<open>
  \<open>ReservationViewSet.perform_create\<close>. \<open>serializer.save\<close> with \<open>kwargs\<close> creates the row from
  the validated data updated with \<open>kwargs\<close>, so an entry of \<open>kwargs\<close> wins over the
  validated entry of the same key. The request user is a stored user: the permission class
  \<open>IsAuthenticatedOrReadOnly\<close> lets nobody else create.
\<close>

definition perform_create ::
    "reservation list \<Rightarrow> user \<Rightarrow> data \<Rightarrow> reservation list \<times> reservation \<times> call list" where
  "perform_create db request_user validated_data =
     (let kwargs_user = (case d_user validated_data of None \<Rightarrow> Some request_user | Some u \<Rightarrow> None);
          kwargs_state = (if need_manual_confirmation (d_resource validated_data)
                          then REQUESTED else CONFIRMED);
          instance =
            \<lparr>pk = next_pk db,
             resource = d_resource validated_data,
             user = (case kwargs_user of Some u \<Rightarrow> Some u | None \<Rightarrow> d_user validated_data),
             begin_ts = d_begin validated_data,
             end_ts = d_end validated_data,
             comments = (case d_comments validated_data of None \<Rightarrow> None | Some c \<Rightarrow> c),
             state = kwargs_state,
             extra_fields = d_extra_fields validated_data,
             created_by = Some request_user,
             modified_by = Some request_user\<rparr>
      in (db @ [instance], instance,
          if \<not> user_eq (user instance) (AuthUser request_user)
          then [send_created_by_admin_mail (pk instance)] else []))"

text \<open>
  The first two steps of \<open>ReservationViewSet.perform_update\<close>: the new state is popped from
  the validated data (the stored state when there is none), and \<open>serializer.save\<close> sets on
  the stored instance the remaining entries of the validated data and \<open>modified_by\<close>.
\<close>

definition perform_update_save :: "reservation \<Rightarrow> user \<Rightarrow> data \<Rightarrow> state \<times> reservation" where
  "perform_update_save old_instance request_user validated_data =
     (let new_state = (case d_state validated_data of None \<Rightarrow> state old_instance | Some s \<Rightarrow> s);
          new_instance = old_instance
            \<lparr>resource := d_resource validated_data,
             user := (case d_user validated_data of None \<Rightarrow> user old_instance | Some u \<Rightarrow> Some u),
             begin_ts := d_begin validated_data,
             end_ts := d_end validated_data,
             comments := (case d_comments validated_data of
                            None \<Rightarrow> comments old_instance | Some c \<Rightarrow> c),
             extra_fields := extra_fields old_instance ++ d_extra_fields validated_data,
             modified_by := Some request_user\<rparr>
      in (new_state, new_instance))"





text \<open>
  The create action of the viewset, as the framework runs it: the serializer's
  \<open>is_valid(raise_exception=True)\<close>, that is \<open>to_internal_value\<close> and then \<open>validate\<close> with
  no instance, and \<open>perform_create\<close> on the validated data. An error leaves the table as
  it was.
\<close>

definition run_validation ::
    "env \<Rightarrow> reservation option \<Rightarrow> request_user \<Rightarrow> json \<Rightarrow> error + data \<Rightarrow> error + data" where
  "run_validation e instance request_user user_data super_to_internal_value =
     (case to_internal_value e user_data super_to_internal_value of
        Inl err \<Rightarrow> Inl err
      | Inr d \<Rightarrow> validate e instance request_user d)"

definition create ::
    "env \<Rightarrow> reservation list \<Rightarrow> user \<Rightarrow> json \<Rightarrow> error + data
      \<Rightarrow> reservation list \<times> (error + reservation \<times> call list)" where
  "create e db request_user user_data super_to_internal_value =
     (case run_validation e None (AuthUser request_user) user_data super_to_internal_value of
        Inl err \<Rightarrow> (db, Inl err)
      | Inr validated_data \<Rightarrow>
          (case perform_create db request_user validated_data of
             (db', instance, calls) \<Rightarrow> (db', Inr (instance, calls))))"

section \<open>Concrete data used by the examples\<close>

definition alice :: user where
  "alice = \<lparr>user_pk = 1, uuid = 11, is_staff = False\<rparr>"

definition bob :: user where
  "bob = \<lparr>user_pk = 2, uuid = 22, is_staff = False\<rparr>"

definition staff :: user where
  "staff = \<lparr>user_pk = 3, uuid = 33, is_staff = True\<rparr>"

text \<open>
  A room that needs manual confirmation: everybody who is logged in may book it, and
  \<open>alice\<close> administers it and approves its reservations, without being global staff.
\<close>

definition room :: resource where
  "room = \<lparr>resource_pk = 1, need_manual_confirmation = True,
            can_make_reservations = is_authenticated,
            can_approve_reservations = user_eq (Some alice),
            is_admin = user_eq (Some alice)\<rparr>"

text \<open>A desk that is confirmed at once; only \<open>alice\<close> may book it and nobody administers it.\<close>

definition desk :: resource where
  "desk = \<lparr>resource_pk = 2, need_manual_confirmation = False,
            can_make_reservations = user_eq (Some alice),
            can_approve_reservations = (\<lambda>u. False),
            is_admin = (\<lambda>u. False)\<rparr>"

definition booking :: "nat \<Rightarrow> resource \<Rightarrow> user \<Rightarrow> state \<Rightarrow> reservation" where
  "booking n res u s =
     \<lparr>pk = n, resource = res, user = Some u, begin_ts = 100, end_ts = 200, comments = None,
      state = s, extra_fields = Map.empty, created_by = Some u, modified_by = Some u\<rparr>"

definition ews_types :: string where
  "ews_types = ''http://schemas.microsoft.com/exchange/services/2006/types''"

definition an_item :: ItemID where
  "an_item = \<lparr>item_id = ''AAMkAD'', change_key = Some ''DwAAAB''\<rparr>"

text \<open>A response that carries the item identifier inside a calendar item.\<close>

definition response :: "(string \<times> string) list \<Rightarrow> element" where
  "response attrs =
     Element ''Items'' []
       [Element (qname ews_types ''CalendarItem'') []
          [Element (qname ews_types ''ItemId'') attrs [],
           Element (qname ews_types ''ItemId'') [(''Id'', ''second'')] []]]"

text \<open>A UUID parser that rejects every string.\<close>

definition no_uuid :: "string \<Rightarrow> nat option" where
  "no_uuid s = None"

text \<open>
  A clock at 1000; users keyed by \<open>id\<close>, with an id field that accepts the integers and,
  as the integer field of the framework does, the string 1.0, and a lookup that reads
  integers only; model checks that accept everything.
\<close>

definition env0 :: env where
  "env0 = \<lparr>now = 1000, USER_ID_ATTRIBUTE = ''id'',
           id_field = (\<lambda>j. case j of JInt i \<Rightarrow> True | JStr s \<Rightarrow> s = ''1.0'' | _ \<Rightarrow> False),
           lookup_value = (\<lambda>j. case j of JInt i \<Rightarrow> Inr i | _ \<Rightarrow> Inl ValueError),
           users = [alice, bob, staff],
           validate_reservation_period = (\<lambda>res r u d. None),
           validate_max_reservations_per_user = (\<lambda>res u. None),
           clean = (\<lambda>d r. None)\<rparr>"

text \<open>The validated data of a request for a resource and a period, with no owner named.\<close>

definition wish :: "resource \<Rightarrow> int \<Rightarrow> int \<Rightarrow> state option \<Rightarrow> data" where
  "wish res b e s =
     \<lparr>d_resource = res, d_begin = b, d_end = e, d_user = None, d_comments = None,
      d_state = s, d_extra_fields = Map.empty\<rparr>"

section \<open>State validation: results\<close>

text \<open>
  C1. For an existing reservation: a proposed state equal to the current one is accepted;
  a user who can approve the resource's reservations may move it between REQUESTED,
  CONFIRMED and DENIED; every other change of state fails with the illegal-state
  validation error.
\<close>

theorem validate_state_existing:
  "(state inst = v \<longrightarrow> validate_state (Some inst) u v = Inr v)
   \<and> (can_approve_reservations (resource inst) u
        \<and> state inst \<in> {REQUESTED, CONFIRMED, DENIED} \<and> v \<in> {REQUESTED, CONFIRMED, DENIED}
       \<longrightarrow> validate_state (Some inst) u v = Inr v)
   \<and> (state inst \<noteq> v
        \<and> \<not> (can_approve_reservations (resource inst) u
              \<and> state inst \<in> {REQUESTED, CONFIRMED, DENIED} \<and> v \<in> {REQUESTED, CONFIRMED, DENIED})
       \<longrightarrow> validate_state (Some inst) u v = Inl (ValidationError ''Illegal state change''))"
  by (auto simp: validate_state_def allowed_states_def)

theorem validate_state_existing_witness:
  "validate_state (Some (booking 7 room bob REQUESTED)) (AuthUser bob) REQUESTED = Inr REQUESTED
   \<and> validate_state (Some (booking 7 room bob REQUESTED)) (AuthUser alice) CONFIRMED = Inr CONFIRMED
   \<and> validate_state (Some (booking 7 room bob REQUESTED)) (AuthUser bob) CONFIRMED
       = Inl (ValidationError ''Illegal state change'')
   \<and> validate_state (Some (booking 7 room bob REQUESTED)) (AuthUser alice) CANCELLED
       = Inl (ValidationError ''Illegal state change'')"
  using validate_state_existing [of "booking 7 room bob REQUESTED" REQUESTED "AuthUser bob"]
    validate_state_existing [of "booking 7 room bob REQUESTED" CONFIRMED "AuthUser alice"]
    validate_state_existing [of "booking 7 room bob REQUESTED" CONFIRMED "AuthUser bob"]
    validate_state_existing [of "booking 7 room bob REQUESTED" CANCELLED "AuthUser alice"]
  by (simp add: booking_def room_def alice_def bob_def)

section \<open>Object-level permission: results\<close>

text \<open>
  C2. A request with a safe method is always permitted. A mutating request is denied when
  the reservation needs manual confirmation, is CONFIRMED and the actor cannot approve;
  otherwise it is granted exactly when the actor administers the resource or owns the
  reservation.
\<close>

theorem has_object_permission_rule:
  "(method \<in> set SAFE_METHODS \<longrightarrow> has_object_permission nmc method u obj)
   \<and> (method \<notin> set SAFE_METHODS \<and> nmc obj \<and> state obj = CONFIRMED
        \<and> \<not> can_approve_reservations (resource obj) u
       \<longrightarrow> \<not> has_object_permission nmc method u obj)
   \<and> (method \<notin> set SAFE_METHODS
        \<and> \<not> (nmc obj \<and> state obj = CONFIRMED \<and> \<not> can_approve_reservations (resource obj) u)
       \<longrightarrow> has_object_permission nmc method u obj
             = (is_admin (resource obj) u \<or> user_eq (user obj) u))"
  by (auto simp: has_object_permission_def Let_def)

theorem has_object_permission_rule_witness:
  "has_object_permission (\<lambda>r. need_manual_confirmation (resource r)) ''GET'' AnonymousUser
       (booking 7 room bob CONFIRMED)
   \<and> \<not> has_object_permission (\<lambda>r. need_manual_confirmation (resource r)) ''DELETE'' (AuthUser bob)
       (booking 7 room bob CONFIRMED)
   \<and> has_object_permission (\<lambda>r. need_manual_confirmation (resource r)) ''PUT'' (AuthUser bob)
       (booking 7 room bob REQUESTED)
   \<and> has_object_permission (\<lambda>r. need_manual_confirmation (resource r)) ''PUT'' (AuthUser alice)
       (booking 7 room bob CONFIRMED)
   \<and> \<not> has_object_permission (\<lambda>r. need_manual_confirmation (resource r)) ''PUT'' (AuthUser bob)
       (booking 8 desk alice CONFIRMED)"
  using has_object_permission_rule [of "''GET''" "\<lambda>r. need_manual_confirmation (resource r)"
      AnonymousUser "booking 7 room bob CONFIRMED"]
    has_object_permission_rule [of "''DELETE''" "\<lambda>r. need_manual_confirmation (resource r)"
      "AuthUser bob" "booking 7 room bob CONFIRMED"]
    has_object_permission_rule [of "''PUT''" "\<lambda>r. need_manual_confirmation (resource r)"
      "AuthUser bob" "booking 7 room bob REQUESTED"]
    has_object_permission_rule [of "''PUT''" "\<lambda>r. need_manual_confirmation (resource r)"
      "AuthUser alice" "booking 7 room bob CONFIRMED"]
    has_object_permission_rule [of "''PUT''" "\<lambda>r. need_manual_confirmation (resource r)"
      "AuthUser bob" "booking 8 desk alice CONFIRMED"]
  by (simp add: SAFE_METHODS_def booking_def room_def desk_def alice_def bob_def)

section \<open>Exchange item identifiers: results\<close>

lemma find_first:
  "\<forall>x\<in>set pre. \<not> P x \<Longrightarrow> P e \<Longrightarrow> List.find P (pre @ e # post) = Some e"
  by (induction pre) auto

lemma find_descendant_first:
  "iterdescendants tree = pre @ e # post \<Longrightarrow> \<forall>x\<in>set pre. tag x \<noteq> t \<Longrightarrow> tag e = t
   \<Longrightarrow> find_descendant t tree = Some e"
  by (simp add: find_descendant_def find_first)

lemma find_descendant_None:
  "find_descendant t tree = None \<longleftrightarrow> (\<forall>x\<in>set (iterdescendants tree). tag x \<noteq> t)"
  by (auto simp: find_descendant_def find_None_iff)

lemma from_tree_no_children: "from_tree ns (Element t a []) = Inl ValueError"
  by (simp add: from_tree_def find_descendant_def iterdescendants_def)

lemma iterdescendants_response:
  "iterdescendants (response attrs)
     = [Element (qname ews_types ''CalendarItem'') []
          [Element (qname ews_types ''ItemId'') attrs [],
           Element (qname ews_types ''ItemId'') [(''Id'', ''second'')] []]]
       @ Element (qname ews_types ''ItemId'') attrs []
       # [Element (qname ews_types ''ItemId'') [(''Id'', ''second'')] []]"
  by (simp add: iterdescendants_def response_def)

lemma qname_inject: "qname ns a = qname ns b \<longleftrightarrow> a = b"
  by (simp add: qname_def)

text \<open>
  C9, as stated, fails: \<open>from_tree\<close> searches below the root only, and the element that
  \<open>to_xml\<close> builds is itself the ItemId element and has no children.
\<close>

theorem to_xml_from_tree_counterexample:
  "to_xml ews_types an_item
     = Inr (Element (qname ews_types ''ItemId'') [(''Id'', ''AAMkAD''), (''ChangeKey'', ''DwAAAB'')] [])
   \<and> from_tree ews_types
       (Element (qname ews_types ''ItemId'') [(''Id'', ''AAMkAD''), (''ChangeKey'', ''DwAAAB'')] [])
     = Inl ValueError"
  by (simp add: to_xml_def an_item_def T_maker_def from_tree_no_children)

text \<open>
  C9, amended. For an item with a string id and a string change key, \<open>from_tree\<close> on the
  element that \<open>to_xml\<close> builds raises ValueError; on every tree in which that element is the
  first ItemId element below the root, \<open>from_tree\<close> returns the item again.
\<close>

theorem to_xml_from_tree_below_root:
  assumes "to_xml ns item = Inr el"
  shows "from_tree ns el = Inl ValueError
     \<and> (iterdescendants tree = pre @ el # post \<and> (\<forall>x\<in>set pre. tag x \<noteq> qname ns ''ItemId'')
        \<longrightarrow> from_tree ns tree = Inr item)"
proof -
  from assms obtain ck where ck: "change_key item = Some ck"
    and el: "el = T_maker ns ''ItemId'' [(''Id'', item_id item), (''ChangeKey'', ck)]"
    by (auto simp: to_xml_def split: option.splits)
  have bare: "from_tree ns el = Inl ValueError"
    by (simp add: el T_maker_def from_tree_no_children)
  have below: "from_tree ns tree = Inr item"
    if "iterdescendants tree = pre @ el # post" "\<forall>x\<in>set pre. tag x \<noteq> qname ns ''ItemId''"
  proof -
    have "tag el = qname ns ''ItemId''"
      by (simp add: el T_maker_def)
    with that have "find_descendant (qname ns ''ItemId'') tree = Some el"
      by (simp add: find_descendant_first)
    then show ?thesis
      by (simp add: from_tree_def el T_maker_def ck [symmetric])
  qed
  from bare below show ?thesis by blast
qed

theorem to_xml_from_tree_below_root_witness:
  "to_xml ews_types an_item
     = Inr (Element (qname ews_types ''ItemId'') [(''Id'', ''AAMkAD''), (''ChangeKey'', ''DwAAAB'')] [])
   \<and> from_tree ews_types (response [(''Id'', ''AAMkAD''), (''ChangeKey'', ''DwAAAB'')]) = Inr an_item"
proof -
  have a: "to_xml ews_types an_item
     = Inr (Element (qname ews_types ''ItemId'') [(''Id'', ''AAMkAD''), (''ChangeKey'', ''DwAAAB'')] [])"
    by (simp add: to_xml_def an_item_def T_maker_def)
  show ?thesis
    using a to_xml_from_tree_below_root [OF a,
        of "response [(''Id'', ''AAMkAD''), (''ChangeKey'', ''DwAAAB'')]"
           "[Element (qname ews_types ''CalendarItem'') []
              [Element (qname ews_types ''ItemId'') [(''Id'', ''AAMkAD''), (''ChangeKey'', ''DwAAAB'')] [],
               Element (qname ews_types ''ItemId'') [(''Id'', ''second'')] []]]"
           "[Element (qname ews_types ''ItemId'') [(''Id'', ''second'')] []]"]
    by (simp add: iterdescendants_response qname_inject)
qed


text \<open>
  C10, as stated, fails: a tree whose root is its only ItemId element contains an ItemId
  element, and \<open>from_tree\<close> raises ValueError on it.
\<close>

theorem from_tree_root_counterexample:
  "Element (qname ews_types ''ItemId'') [(''Id'', ''AAMkAD'')] []
     \<in> set (iter (Element (qname ews_types ''ItemId'') [(''Id'', ''AAMkAD'')] []))
   \<and> tag (Element (qname ews_types ''ItemId'') [(''Id'', ''AAMkAD'')] []) = qname ews_types ''ItemId''
   \<and> from_tree ews_types (Element (qname ews_types ''ItemId'') [(''Id'', ''AAMkAD'')] [])
       = Inl ValueError"
  by (simp add: from_tree_no_children)

text \<open>
  C10, amended. \<open>from_tree\<close> raises ValueError exactly when no element below the root is an
  ItemId element. Otherwise, with \<open>e\<close> the first ItemId element below the root in document
  order: if \<open>e\<close> has an Id attribute, the result is the item with that id and with the
  ChangeKey attribute of \<open>e\<close> as change key, \<open>None\<close> when \<open>e\<close> has none; if \<open>e\<close> has no Id
  attribute, the key lookup error is raised.
\<close>

theorem from_tree_cases:
  "(from_tree ns tree = Inl ValueError
      \<longleftrightarrow> (\<forall>x\<in>set (iterdescendants tree). tag x \<noteq> qname ns ''ItemId''))
   \<and> (iterdescendants tree = pre @ e # post \<and> tag e = qname ns ''ItemId''
       \<and> (\<forall>x\<in>set pre. tag x \<noteq> qname ns ''ItemId'')
       \<longrightarrow> (map_of (attrib e) ''Id'' = Some i
              \<longrightarrow> from_tree ns tree
                   = Inr \<lparr>item_id = i, change_key = map_of (attrib e) ''ChangeKey''\<rparr>)
           \<and> (map_of (attrib e) ''Id'' = None \<longrightarrow> from_tree ns tree = Inl (KeyError ''Id'')))"
proof -
  have none: "from_tree ns tree = Inl ValueError
      \<longleftrightarrow> (\<forall>x\<in>set (iterdescendants tree). tag x \<noteq> qname ns ''ItemId'')"
    unfolding find_descendant_None [symmetric]
    by (simp add: from_tree_def split: option.splits)
  have some: "from_tree ns tree =
        (case map_of (attrib e) ''Id'' of
           None \<Rightarrow> Inl (KeyError ''Id'')
         | Some i \<Rightarrow> Inr \<lparr>item_id = i, change_key = map_of (attrib e) ''ChangeKey''\<rparr>)"
    if "iterdescendants tree = pre @ e # post" "tag e = qname ns ''ItemId''"
       "\<forall>x\<in>set pre. tag x \<noteq> qname ns ''ItemId''"
    using find_descendant_first [OF that(1) that(3) that(2)]
    by (simp add: from_tree_def)
  have some': "iterdescendants tree = pre @ e # post \<and> tag e = qname ns ''ItemId''
       \<and> (\<forall>x\<in>set pre. tag x \<noteq> qname ns ''ItemId'')
       \<longrightarrow> (map_of (attrib e) ''Id'' = Some i
              \<longrightarrow> from_tree ns tree
                   = Inr \<lparr>item_id = i, change_key = map_of (attrib e) ''ChangeKey''\<rparr>)
           \<and> (map_of (attrib e) ''Id'' = None \<longrightarrow> from_tree ns tree = Inl (KeyError ''Id''))"
    using some by simp
  from none some' show ?thesis by (rule conjI)
qed

theorem from_tree_cases_witness:
  "from_tree ews_types (Element ''Items'' [] [Element (qname ews_types ''CalendarItem'') [] []])
     = Inl ValueError
   \<and> from_tree ews_types (response [(''Id'', ''AAMkAD''), (''ChangeKey'', ''DwAAAB'')])
     = Inr \<lparr>item_id = ''AAMkAD'', change_key = Some ''DwAAAB''\<rparr>
   \<and> from_tree ews_types (response [(''Id'', ''AAMkAD'')])
     = Inr \<lparr>item_id = ''AAMkAD'', change_key = None\<rparr>
   \<and> from_tree ews_types (response [(''ChangeKey'', ''DwAAAB'')]) = Inl (KeyError ''Id'')"
proof -
  have a: "from_tree ews_types (Element ''Items'' [] [Element (qname ews_types ''CalendarItem'') [] []])
     = Inl ValueError"
    using from_tree_cases [of ews_types
        "Element ''Items'' [] [Element (qname ews_types ''CalendarItem'') [] []]"]
    by (simp add: iterdescendants_def qname_inject)
  have b: "from_tree ews_types (response [(''Id'', ''AAMkAD''), (''ChangeKey'', ''DwAAAB'')])
     = Inr \<lparr>item_id = ''AAMkAD'', change_key = Some ''DwAAAB''\<rparr>"
    using from_tree_cases [of ews_types "response [(''Id'', ''AAMkAD''), (''ChangeKey'', ''DwAAAB'')]"
        "[Element (qname ews_types ''CalendarItem'') []
           [Element (qname ews_types ''ItemId'') [(''Id'', ''AAMkAD''), (''ChangeKey'', ''DwAAAB'')] [],
            Element (qname ews_types ''ItemId'') [(''Id'', ''second'')] []]]"
        "Element (qname ews_types ''ItemId'') [(''Id'', ''AAMkAD''), (''ChangeKey'', ''DwAAAB'')] []"
        "[Element (qname ews_types ''ItemId'') [(''Id'', ''second'')] []]" "''AAMkAD''"]
    by (simp add: iterdescendants_response qname_inject)
  have c: "from_tree ews_types (response [(''Id'', ''AAMkAD'')])
     = Inr \<lparr>item_id = ''AAMkAD'', change_key = None\<rparr>"
    using from_tree_cases [of ews_types "response [(''Id'', ''AAMkAD'')]"
        "[Element (qname ews_types ''CalendarItem'') []
           [Element (qname ews_types ''ItemId'') [(''Id'', ''AAMkAD'')] [],
            Element (qname ews_types ''ItemId'') [(''Id'', ''second'')] []]]"
        "Element (qname ews_types ''ItemId'') [(''Id'', ''AAMkAD'')] []"
        "[Element (qname ews_types ''ItemId'') [(''Id'', ''second'')] []]" "''AAMkAD''"]
    by (simp add: iterdescendants_response qname_inject)
  have d: "from_tree ews_types (response [(''ChangeKey'', ''DwAAAB'')]) = Inl (KeyError ''Id'')"
    using from_tree_cases [of ews_types "response [(''ChangeKey'', ''DwAAAB'')]"
        "[Element (qname ews_types ''CalendarItem'') []
           [Element (qname ews_types ''ItemId'') [(''ChangeKey'', ''DwAAAB'')] [],
            Element (qname ews_types ''ItemId'') [(''Id'', ''second'')] []]]"
        "Element (qname ews_types ''ItemId'') [(''ChangeKey'', ''DwAAAB'')] []"
        "[Element (qname ews_types ''ItemId'') [(''Id'', ''second'')] []]"]
    by (simp add: iterdescendants_response qname_inject)
  from a b c d show ?thesis by simp
qed

section \<open>Listing: results\<close>

lemma q_user_eq: "q_matches (Q_user u) = (\<lambda>r. user_eq (user r) (AuthUser u))"
  by (rule ext) (simp split: option.splits)

text \<open>
  C3, as stated, fails for an administrator of a resource who is not global staff:
  \<open>get_queryset\<close> looks at \<open>user.is_staff\<close> only, and hides from her a cancelled
  reservation that another user holds on the resource she administers.
\<close>

theorem get_queryset_admin_counterexample:
  "is_admin (resource (booking 7 room bob CANCELLED)) (AuthUser alice)
   \<and> booking 7 room bob CANCELLED
       \<notin> set (get_queryset [booking 7 room bob CANCELLED] (AuthUser alice))"
  by (simp add: get_queryset_def filter_qs_def booking_def room_def alice_def bob_def)

text \<open>
  C3, amended. A user with the global staff flag sees every reservation; an authenticated
  user without it sees exactly the reservations they own and those in state CONFIRMED or
  REQUESTED; an unauthenticated user sees exactly those in state CONFIRMED or REQUESTED.
\<close>

theorem get_queryset_visibility:
  "(request_is_staff ru \<longrightarrow> get_queryset qs ru = qs)
   \<and> (\<not> request_is_staff ru \<and> is_authenticated ru
       \<longrightarrow> get_queryset qs ru
            = filter (\<lambda>r. user_eq (user r) ru \<or> state r = CONFIRMED \<or> state r = REQUESTED) qs)
   \<and> (\<not> is_authenticated ru
       \<longrightarrow> get_queryset qs ru = filter (\<lambda>r. state r = CONFIRMED \<or> state r = REQUESTED) qs)"
  by (cases ru) (auto simp: get_queryset_def filter_qs_def intro!: filter_cong split: option.splits)

theorem get_queryset_visibility_witness:
  "get_queryset [booking 7 room bob CANCELLED, booking 8 room alice DENIED,
                 booking 9 room bob REQUESTED] (AuthUser staff)
     = [booking 7 room bob CANCELLED, booking 8 room alice DENIED, booking 9 room bob REQUESTED]
   \<and> get_queryset [booking 7 room bob CANCELLED, booking 8 room alice DENIED,
                   booking 9 room bob REQUESTED] (AuthUser alice)
     = [booking 8 room alice DENIED, booking 9 room bob REQUESTED]
   \<and> get_queryset [booking 7 room bob CANCELLED, booking 8 room alice DENIED,
                   booking 9 room bob REQUESTED] AnonymousUser
     = [booking 9 room bob REQUESTED]"
  using get_queryset_visibility [of "AuthUser staff"
      "[booking 7 room bob CANCELLED, booking 8 room alice DENIED, booking 9 room bob REQUESTED]"]
    get_queryset_visibility [of "AuthUser alice"
      "[booking 7 room bob CANCELLED, booking 8 room alice DENIED, booking 9 room bob REQUESTED]"]
    get_queryset_visibility [of AnonymousUser
      "[booking 7 room bob CANCELLED, booking 8 room alice DENIED, booking 9 room bob REQUESTED]"]
  by (simp add: booking_def staff_def alice_def bob_def)



text \<open>
  C8, as stated, fails for a request that is not authenticated: the \<open>is_own\<close> parameter is
  not read at all, so a token outside both lists causes no parse error.
\<close>

theorem filter_queryset_anonymous_counterexample:
  "filter_queryset no_uuid [''is_own'' \<mapsto> ''maybe''] AnonymousUser
      [booking 7 room bob CONFIRMED, booking 8 room alice CONFIRMED]
     = Inr [booking 7 room bob CONFIRMED, booking 8 room alice CONFIRMED]"
  by (simp add: filter_queryset_def filter_by_user_param_def)

text \<open>
  C8, amended. For a request that carries \<open>is_own\<close>: a malformed \<open>user\<close> parameter causes
  its own parse error first. Otherwise, for an unauthenticated requester \<open>is_own\<close> is
  ignored; for an authenticated requester a token whose lower-case form is one of
  true, t, yes, y, 1 keeps the requester's own reservations, one of false, f, no, n, 0
  keeps all the others, and any other token causes a parse error.
\<close>

theorem filter_queryset_is_own:
  assumes "query_params ''is_own'' = Some tok"
  shows "(filter_by_user_param uuid_UUID query_params qs = Inl e
            \<longrightarrow> filter_queryset uuid_UUID query_params ru qs = Inl e)
     \<and> (filter_by_user_param uuid_UUID query_params qs = Inr qs'
          \<longrightarrow> (\<not> is_authenticated ru \<longrightarrow> filter_queryset uuid_UUID query_params ru qs = Inr qs')
            \<and> (is_authenticated ru \<and> lower tok \<in> {''true'', ''t'', ''yes'', ''y'', ''1''}
                 \<longrightarrow> filter_queryset uuid_UUID query_params ru qs
                      = Inr (filter (\<lambda>r. user_eq (user r) ru) qs'))
            \<and> (is_authenticated ru \<and> lower tok \<in> {''false'', ''f'', ''no'', ''n'', ''0''}
                 \<longrightarrow> filter_queryset uuid_UUID query_params ru qs
                      = Inr (filter (\<lambda>r. \<not> user_eq (user r) ru) qs'))
            \<and> (is_authenticated ru
                 \<and> lower tok \<notin> {''true'', ''t'', ''yes'', ''y'', ''1'', ''false'', ''f'', ''no'', ''n'', ''0''}
                 \<longrightarrow> filter_queryset uuid_UUID query_params ru qs
                      = Inl (ParseError ''Invalid value in filter is_own'')))"
proof (cases ru)
  case AnonymousUser
  then show ?thesis
    by (simp add: filter_queryset_def)
next
  case (AuthUser u)
  have "filter_qs (Q_user u) xs = filter (\<lambda>r. user_eq (user r) (AuthUser u)) xs" for xs
    by (simp only: filter_qs_def q_user_eq)
  moreover have "exclude_qs (Q_user u) xs = filter (\<lambda>r. \<not> user_eq (user r) (AuthUser u)) xs" for xs
    by (simp only: exclude_qs_def q_user_eq)
  ultimately show ?thesis
    using assms AuthUser by (simp add: filter_queryset_def Let_def)
qed

theorem filter_queryset_is_own_witness:
  "filter_queryset no_uuid [''is_own'' \<mapsto> ''Yes''] (AuthUser bob)
      [booking 7 room bob CONFIRMED, booking 8 room alice CONFIRMED]
     = Inr [booking 7 room bob CONFIRMED]
   \<and> filter_queryset no_uuid [''is_own'' \<mapsto> ''0''] (AuthUser bob)
      [booking 7 room bob CONFIRMED, booking 8 room alice CONFIRMED]
     = Inr [booking 8 room alice CONFIRMED]
   \<and> filter_queryset no_uuid [''is_own'' \<mapsto> ''maybe''] (AuthUser bob)
      [booking 7 room bob CONFIRMED, booking 8 room alice CONFIRMED]
     = Inl (ParseError ''Invalid value in filter is_own'')
   \<and> filter_queryset no_uuid [''is_own'' \<mapsto> ''true''] AnonymousUser
      [booking 7 room bob CONFIRMED, booking 8 room alice CONFIRMED]
     = Inr [booking 7 room bob CONFIRMED, booking 8 room alice CONFIRMED]
   \<and> filter_queryset no_uuid [''is_own'' \<mapsto> ''true'', ''user'' \<mapsto> ''xyz''] (AuthUser bob)
      [booking 7 room bob CONFIRMED, booking 8 room alice CONFIRMED]
     = Inl (ParseError ''Invalid value in filter user'')"
proof -
  let ?qs = "[booking 7 room bob CONFIRMED, booking 8 room alice CONFIRMED]"
  have p: "filter_by_user_param no_uuid [''is_own'' \<mapsto> t] xs = Inr xs" for t xs
    by (simp add: filter_by_user_param_def)
  have q: "filter_by_user_param no_uuid [''is_own'' \<mapsto> ''true'', ''user'' \<mapsto> ''xyz''] xs
             = Inl (ParseError ''Invalid value in filter user'')" for xs
    by (simp add: filter_by_user_param_def no_uuid_def)
  have l: "lower ''Yes'' = ''yes''" "lower ''0'' = ''0''" "lower ''maybe'' = ''maybe''"
    "lower ''true'' = ''true''"
    by (simp_all add: lower_def lower_char_def)
  have a: "filter_queryset no_uuid [''is_own'' \<mapsto> ''Yes''] (AuthUser bob) ?qs
       = Inr [booking 7 room bob CONFIRMED]"
    using filter_queryset_is_own [of "[''is_own'' \<mapsto> ''Yes'']" "''Yes''" no_uuid ?qs
        PermissionDenied "AuthUser bob" ?qs]
    by (simp add: p l booking_def alice_def bob_def)
  have b: "filter_queryset no_uuid [''is_own'' \<mapsto> ''0''] (AuthUser bob) ?qs
       = Inr [booking 8 room alice CONFIRMED]"
    using filter_queryset_is_own [of "[''is_own'' \<mapsto> ''0'']" "''0''" no_uuid ?qs
        PermissionDenied "AuthUser bob" ?qs]
    by (simp add: p l booking_def alice_def bob_def)
  have c: "filter_queryset no_uuid [''is_own'' \<mapsto> ''maybe''] (AuthUser bob) ?qs
       = Inl (ParseError ''Invalid value in filter is_own'')"
    using filter_queryset_is_own [of "[''is_own'' \<mapsto> ''maybe'']" "''maybe''" no_uuid ?qs
        PermissionDenied "AuthUser bob" ?qs]
    by (simp add: p l)
  have d: "filter_queryset no_uuid [''is_own'' \<mapsto> ''true''] AnonymousUser ?qs = Inr ?qs"
    using filter_queryset_is_own [of "[''is_own'' \<mapsto> ''true'']" "''true''" no_uuid ?qs
        PermissionDenied AnonymousUser ?qs]
    by (simp add: p)
  have e: "filter_queryset no_uuid [''is_own'' \<mapsto> ''true'', ''user'' \<mapsto> ''xyz''] (AuthUser bob) ?qs
       = Inl (ParseError ''Invalid value in filter user'')"
    using filter_queryset_is_own [of "[''is_own'' \<mapsto> ''true'', ''user'' \<mapsto> ''xyz'']" "''true''"
        no_uuid ?qs "ParseError ''Invalid value in filter user''" "AuthUser bob" ?qs]
    by (simp add: q)
  from a b c d e show ?thesis by simp
qed

section \<open>Validation and persistence: results\<close>

lemma validate_ignores_user:
  "\<not> is_admin (d_resource d) ru \<Longrightarrow> validate e inst ru (d\<lparr>d_user := w\<rparr>) = validate e inst ru (d\<lparr>d_user := None\<rparr>)"
  by (simp add: validate_def Let_def)

lemma validate_user_None:
  "\<not> is_admin (d_resource d) ru \<Longrightarrow> validate e inst ru d = Inr vd \<Longrightarrow> d_user vd = None"
  by (auto simp: validate_def Let_def split: if_splits option.splits)

lemma perform_create_owner:
  "d_user vd = None \<Longrightarrow> user (fst (snd (perform_create db u vd))) = Some u"
  by (simp add: perform_create_def Let_def)

lemma perform_update_save_owner:
  "d_user vd = None \<Longrightarrow> user (snd (perform_update_save old u vd)) = user old"
  by (simp add: perform_update_save_def Let_def)

lemma to_internal_value_cases:
  "to_internal_value e ud (Inr d) =
     (if \<not> truthy ud then Inr (d\<lparr>d_user := None\<rparr>)
      else case UserSerializer_is_valid e ud of
             Some err \<Rightarrow> Inl err
           | None \<Rightarrow> (case User_objects_get e ud of
                         Inr w \<Rightarrow> Inr (d\<lparr>d_user := Some w\<rparr>)
                       | Inl err \<Rightarrow>
                           if err = DoesNotExist
                           then Inl (ValidationError ''user: Invalid pk - object does not exist.'')
                           else Inl err))"
  by (simp add: to_internal_value_def Let_def split: sum.splits option.splits)

lemma to_internal_value_user:
  "to_internal_value e ud (Inr d) = Inr d' \<Longrightarrow> \<exists>w. d' = d\<lparr>d_user := w\<rparr>"
  by (auto simp: to_internal_value_cases split: if_splits sum.splits option.splits)

text \<open>
  C4, as stated, fails: \<open>to_internal_value\<close> validates and looks up a supplied \<open>user\<close> for
  every actor, before \<open>validate\<close> can discard it. A non-administrator who names a user that
  does not exist gets a validation error, and nothing is created.
\<close>

theorem non_admin_user_field_counterexample:
  "\<not> is_admin (d_resource (wish room 2000 3000 None)) (AuthUser bob)
   \<and> create env0 [] bob (JDict [(''id'', JInt 99)]) (Inr (wish room 2000 3000 None))
       = ([], Inl (ValidationError ''user: Invalid pk - object does not exist.''))"
  by (simp add: create_def run_validation_def to_internal_value_cases UserSerializer_is_valid_def
      User_objects_get_def getitem_def env0_def wish_def room_def alice_def bob_def staff_def)

text \<open>
  C4, amended. For an actor who does not administer the resource: deserialization fails on
  a supplied \<open>user\<close> exactly when it is a true value that the user serializer refuses or for
  which the lookup of the user raises. The error is the serializer's validation error, a
  validation error when the lookup finds no user, and otherwise the error of the lookup
  itself, which nothing catches; it is the outcome of validation. Every other supplied
  \<open>user\<close> is discarded: validation has the outcome it has for a request without the \<open>user\<close>
  field, validated data carries no \<open>user\<close>, a reservation created from it is owned by the
  actor, and an update saves the reservation with its stored owner.
\<close>

theorem non_admin_user_field:
  assumes "\<not> is_admin (d_resource d) (AuthUser u)"
  shows "(isl (to_internal_value e ud (Inr d))
            \<longleftrightarrow> truthy ud \<and> (UserSerializer_is_valid e ud \<noteq> None \<or> isl (User_objects_get e ud)))
     \<and> (truthy ud \<and> UserSerializer_is_valid e ud = Some err
          \<longrightarrow> to_internal_value e ud (Inr d) = Inl err)
     \<and> (truthy ud \<and> UserSerializer_is_valid e ud = None \<and> User_objects_get e ud = Inl DoesNotExist
          \<longrightarrow> to_internal_value e ud (Inr d)
                = Inl (ValidationError ''user: Invalid pk - object does not exist.''))
     \<and> (truthy ud \<and> UserSerializer_is_valid e ud = None \<and> User_objects_get e ud = Inl err'
            \<and> err' \<noteq> DoesNotExist
          \<longrightarrow> to_internal_value e ud (Inr d) = Inl err')
     \<and> (isl (to_internal_value e ud (Inr d))
          \<longrightarrow> run_validation e inst (AuthUser u) ud (Inr d) = to_internal_value e ud (Inr d))
     \<and> (\<not> isl (to_internal_value e ud (Inr d))
          \<longrightarrow> run_validation e inst (AuthUser u) ud (Inr d)
                = run_validation e inst (AuthUser u) JNull (Inr d)
            \<and> (run_validation e inst (AuthUser u) ud (Inr d) = Inr vd
                \<longrightarrow> d_user vd = None
                  \<and> user (fst (snd (perform_create db u vd))) = Some u
                  \<and> user (snd (perform_update_save old u vd)) = user old))"
proof -
  have a: "isl (to_internal_value e ud (Inr d))
            \<longleftrightarrow> truthy ud \<and> (UserSerializer_is_valid e ud \<noteq> None \<or> isl (User_objects_get e ud))"
    by (auto simp: to_internal_value_cases split: sum.splits option.splits)
  have a1: "to_internal_value e ud (Inr d) = Inl err"
    if "truthy ud" "UserSerializer_is_valid e ud = Some err"
    using that by (simp add: to_internal_value_cases)
  have a2: "to_internal_value e ud (Inr d)
                = Inl (ValidationError ''user: Invalid pk - object does not exist.'')"
    if "truthy ud" "UserSerializer_is_valid e ud = None" "User_objects_get e ud = Inl DoesNotExist"
    using that by (simp add: to_internal_value_cases)
  have a3: "to_internal_value e ud (Inr d) = Inl err'"
    if "truthy ud" "UserSerializer_is_valid e ud = None" "User_objects_get e ud = Inl err'"
      "err' \<noteq> DoesNotExist"
    using that by (simp add: to_internal_value_cases)
  have b: "run_validation e inst (AuthUser u) ud (Inr d) = to_internal_value e ud (Inr d)"
    if "isl (to_internal_value e ud (Inr d))"
    using that by (auto simp: run_validation_def isl_def)
  have c: "run_validation e inst (AuthUser u) ud (Inr d)
                = run_validation e inst (AuthUser u) JNull (Inr d)"
    if "\<not> isl (to_internal_value e ud (Inr d))"
  proof -
    from that obtain d' where "to_internal_value e ud (Inr d) = Inr d'"
      by (cases "to_internal_value e ud (Inr d)") auto
    then obtain w where w: "to_internal_value e ud (Inr d) = Inr (d\<lparr>d_user := w\<rparr>)"
      using to_internal_value_user by blast
    have "to_internal_value e JNull (Inr d) = Inr (d\<lparr>d_user := None\<rparr>)"
      by (simp add: to_internal_value_cases)
    with w show ?thesis
      using validate_ignores_user [OF assms, of e inst w] by (simp add: run_validation_def)
  qed
  have d: "d_user vd = None"
    if "\<not> isl (to_internal_value e ud (Inr d))"
      "run_validation e inst (AuthUser u) ud (Inr d) = Inr vd"
  proof -
    from that(2) c [OF that(1)]
    have "validate e inst (AuthUser u) (d\<lparr>d_user := None\<rparr>) = Inr vd"
      by (simp add: run_validation_def to_internal_value_cases)
    with assms show ?thesis
      using validate_user_None [of "d\<lparr>d_user := None\<rparr>" "AuthUser u" e inst vd] by simp
  qed
  show ?thesis
    using a a1 a2 a3 b c d perform_create_owner perform_update_save_owner by blast
qed

theorem non_admin_user_field_witness:
  "to_internal_value env0 (JDict [(''id'', JInt 99)]) (Inr (wish room 2000 3000 None))
     = Inl (ValidationError ''user: Invalid pk - object does not exist.'')
   \<and> to_internal_value env0 (JDict [(''id'', JStr ''1.0'')]) (Inr (wish room 2000 3000 None))
     = Inl ValueError
   \<and> isl (to_internal_value env0 (JStr ''alice'') (Inr (wish room 2000 3000 None)))
   \<and> run_validation env0 None (AuthUser bob) (JDict [(''id'', JInt 1)]) (Inr (wish room 2000 3000 None))
       = Inr (wish room 2000 3000 None)
   \<and> user (fst (snd (perform_create [booking 7 room bob REQUESTED] bob (wish room 2000 3000 None))))
       = Some bob
   \<and> user (snd (perform_update_save (booking 7 room bob REQUESTED) bob (wish room 2000 3000 None)))
       = Some bob"
proof -
  have n: "\<not> is_admin (d_resource (wish room 2000 3000 None)) (AuthUser bob)"
    by (simp add: wish_def room_def alice_def bob_def)
  have s1: "UserSerializer_is_valid env0 (JDict [(''id'', JInt i)]) = None" for i
    by (simp add: UserSerializer_is_valid_def env0_def)
  have s2: "UserSerializer_is_valid env0 (JDict [(''id'', JStr ''1.0'')]) = None"
    by (simp add: UserSerializer_is_valid_def env0_def)
  have g1: "User_objects_get env0 (JDict [(''id'', JInt 1)]) = Inr alice"
    by (simp add: User_objects_get_def getitem_def env0_def alice_def bob_def staff_def)
  have g2: "User_objects_get env0 (JDict [(''id'', JInt 99)]) = Inl DoesNotExist"
    by (simp add: User_objects_get_def getitem_def env0_def alice_def bob_def staff_def)
  have g3: "User_objects_get env0 (JDict [(''id'', JStr ''1.0'')]) = Inl ValueError"
    by (simp add: User_objects_get_def getitem_def env0_def)
  have v: "run_validation env0 None (AuthUser bob) (JDict [(''id'', JInt 1)])
             (Inr (wish room 2000 3000 None)) = Inr (wish room 2000 3000 None)"
    by (simp add: run_validation_def to_internal_value_cases s1 g1)
      (simp add: validate_def env0_def wish_def room_def alice_def bob_def)
  have t: "\<not> isl (to_internal_value env0 (JDict [(''id'', JInt 1)]) (Inr (wish room 2000 3000 None)))"
    by (simp add: to_internal_value_cases s1 g1)
  have x: "to_internal_value env0 (JDict [(''id'', JInt 99)]) (Inr (wish room 2000 3000 None))
     = Inl (ValidationError ''user: Invalid pk - object does not exist.'')"
    using non_admin_user_field [OF n, of env0 "JDict [(''id'', JInt 99)]"] s1 g2 by simp
  have x': "to_internal_value env0 (JDict [(''id'', JStr ''1.0'')]) (Inr (wish room 2000 3000 None))
     = Inl ValueError"
    using non_admin_user_field [OF n, of env0 "JDict [(''id'', JStr ''1.0'')]" _ ValueError] s2 g3
    by simp
  have y: "isl (to_internal_value env0 (JStr ''alice'') (Inr (wish room 2000 3000 None)))"
    using non_admin_user_field [OF n, of env0 "JStr ''alice''"]
    by (simp add: UserSerializer_is_valid_def)
  have z: "user (fst (snd (perform_create [booking 7 room bob REQUESTED] bob (wish room 2000 3000 None))))
       = Some bob
     \<and> user (snd (perform_update_save (booking 7 room bob REQUESTED) bob (wish room 2000 3000 None)))
       = user (booking 7 room bob REQUESTED)"
    using non_admin_user_field [OF n, of env0 "JDict [(''id'', JInt 1)]" PermissionDenied
        PermissionDenied None "wish room 2000 3000 None"
        "[booking 7 room bob REQUESTED]" "booking 7 room bob REQUESTED"] t v
    by simp
  from v x x' y z show ?thesis by (simp add: booking_def)
qed


text \<open>
  C5. A created reservation is stored, and its state is REQUESTED if its resource needs
  manual confirmation and CONFIRMED otherwise, whatever state the validated data carries.
\<close>

theorem perform_create_initial_state:
  assumes "perform_create db u vd = (db', inst, calls)"
  shows "inst \<in> set db' \<and> resource inst = d_resource vd
     \<and> (need_manual_confirmation (resource inst) \<longrightarrow> state inst = REQUESTED)
     \<and> (\<not> need_manual_confirmation (resource inst) \<longrightarrow> state inst = CONFIRMED)
     \<and> perform_create db u (vd\<lparr>d_state := s\<rparr>) = (db', inst, calls)"
proof -
  have "perform_create db u (vd\<lparr>d_state := s\<rparr>) = perform_create db u vd"
    by (simp add: perform_create_def Let_def split: option.splits)
  moreover have "inst \<in> set db'" "resource inst = d_resource vd"
    "state inst = (if need_manual_confirmation (d_resource vd) then REQUESTED else CONFIRMED)"
    using assms by (auto simp: perform_create_def Let_def)
  ultimately show ?thesis
    using assms by simp
qed

theorem perform_create_initial_state_witness:
  "state (fst (snd (perform_create [] bob (wish room 2000 3000 (Some CONFIRMED))))) = REQUESTED
   \<and> state (fst (snd (perform_create [] alice (wish desk 2000 3000 (Some DENIED))))) = CONFIRMED"
  using perform_create_initial_state [of "[]" bob "wish room 2000 3000 (Some CONFIRMED)"
      "fst (perform_create [] bob (wish room 2000 3000 (Some CONFIRMED)))"
      "fst (snd (perform_create [] bob (wish room 2000 3000 (Some CONFIRMED))))"
      "snd (snd (perform_create [] bob (wish room 2000 3000 (Some CONFIRMED))))"]
    perform_create_initial_state [of "[]" alice "wish desk 2000 3000 (Some DENIED)"
      "fst (perform_create [] alice (wish desk 2000 3000 (Some DENIED)))"
      "fst (snd (perform_create [] alice (wish desk 2000 3000 (Some DENIED))))"
      "snd (snd (perform_create [] alice (wish desk 2000 3000 (Some DENIED))))"]
  by (simp add: perform_create_def Let_def wish_def room_def desk_def)



text \<open>
  C7, as stated, fails for an actor who may not make reservations on the resource:
  \<open>validate\<close> checks that first, and the rejection is the authorization error, not the
  validation error about the past.
\<close>

theorem validate_past_end_counterexample:
  "d_end (wish desk 200 300 None) < now env0
   \<and> validate env0 None (AuthUser bob) (wish desk 200 300 None) = Inl PermissionDenied"
  by (simp add: validate_def env0_def wish_def desk_def alice_def bob_def)

text \<open>
  C7, amended. When the proposed end lies before the current time, \<open>validate\<close> rejects the
  data: with the validation error "Cannot make a reservation in the past" if the actor may
  make reservations on the resource, with the authorization error otherwise. A create
  request with such data fails and leaves the table of reservations as it was.
\<close>

theorem validate_rejects_past_end:
  assumes "d_end vd < now e"
  shows "(can_make_reservations (d_resource vd) ru
            \<longrightarrow> validate e inst ru vd = Inl (ValidationError ''Cannot make a reservation in the past''))
     \<and> (\<not> can_make_reservations (d_resource vd) ru
            \<longrightarrow> validate e inst ru vd = Inl PermissionDenied)
     \<and> fst (create e db u ud (Inr vd)) = db
     \<and> isl (snd (create e db u ud (Inr vd)))"
proof -
  have v: "isl (validate e i r (vd\<lparr>d_user := w\<rparr>))" for i r w
    using assms by (simp add: validate_def Let_def)
  have "isl (run_validation e None (AuthUser u) ud (Inr vd))"
    using v by (simp add: run_validation_def to_internal_value_cases split: sum.splits option.splits)
  then have "fst (create e db u ud (Inr vd)) = db \<and> isl (snd (create e db u ud (Inr vd)))"
    by (auto simp: create_def isl_def)
  then show ?thesis
    using assms by (simp add: validate_def Let_def)
qed

theorem validate_rejects_past_end_witness:
  "validate env0 None (AuthUser alice) (wish desk 200 300 None)
     = Inl (ValidationError ''Cannot make a reservation in the past'')
   \<and> validate env0 (Some (booking 7 room bob REQUESTED)) (AuthUser bob) (wish room 200 300 None)
     = Inl (ValidationError ''Cannot make a reservation in the past'')
   \<and> validate env0 None (AuthUser bob) (wish desk 200 300 None) = Inl PermissionDenied
   \<and> fst (create env0 [booking 7 room bob REQUESTED] alice JNull (Inr (wish desk 200 300 None)))
     = [booking 7 room bob REQUESTED]"
proof -
  have p: "d_end (wish res 200 300 None) < now env0" for res
    by (simp add: wish_def env0_def)
  have "can_make_reservations (d_resource (wish desk 200 300 None)) (AuthUser alice)"
    "can_make_reservations (d_resource (wish room 200 300 None)) (AuthUser bob)"
    "\<not> can_make_reservations (d_resource (wish desk 200 300 None)) (AuthUser bob)"
    by (simp_all add: wish_def desk_def room_def alice_def bob_def)
  then show ?thesis
    using validate_rejects_past_end [OF p, of desk "AuthUser alice" None
        "[booking 7 room bob REQUESTED]" alice JNull]
      validate_rejects_past_end [OF p, of room "AuthUser bob" "Some (booking 7 room bob REQUESTED)"
        "[booking 7 room bob REQUESTED]" alice JNull]
      validate_rejects_past_end [OF p, of desk "AuthUser bob" None
        "[booking 7 room bob REQUESTED]" alice JNull]
    by simp
qed

section \<open>The table keeps distinct primary keys\<close>

text \<open>
  The primary keys of the table stay distinct under creation.
\<close>

lemma fold_max_ge: "(a::nat) \<le> fold max xs a \<and> (\<forall>x\<in>set xs. x \<le> fold max xs a)"
proof (induction xs arbitrary: a)
  case Nil
  then show ?case by simp
next
  case (Cons y ys)
  have "max y a \<le> fold max ys (max y a)" "\<forall>x\<in>set ys. x \<le> fold max ys (max y a)"
    using Cons.IH [of "max y a"] by simp_all
  then show ?case by auto
qed

lemma next_pk_fresh: "next_pk db \<notin> set (map pk db)"
proof
  assume "next_pk db \<in> set (map pk db)"
  then have "next_pk db \<le> fold max (map pk db) 0"
    using fold_max_ge [of 0 "map pk db"] by blast
  then show False
    by (simp add: next_pk_def)
qed

lemma perform_create_distinct:
  "distinct (map pk db) \<Longrightarrow> distinct (map pk (fst (perform_create db u vd)))"
  using next_pk_fresh [of db] by (simp add: perform_create_def Let_def)

end
